theory Spec2Isabelle
  imports Main
begin

section \<open>Check results (internal/checker/result.go)\<close>

text \<open>
  \<^verbatim>\<open>type Status string\<close> with the two constants \<^verbatim>\<open>StatusUp = "up"\<close> and
  \<^verbatim>\<open>StatusDown = "down"\<close>. A status read back from storage is converted from a plain
  string, so the type is kept as a string and not narrowed to two values.
  Durations and instants are Go's nanosecond counts.
\<close>

type_synonym Status = string

definition StatusUp :: Status where
  "StatusUp = ''up''"

definition StatusDown :: Status where
  "StatusDown = ''down''"

record CheckResult =
  ServiceName :: string
  Status :: Status
  ResponseTime :: int
  Error :: string
  CheckedAt :: int

section \<open>Alert dispatcher (package alert)\<close>

text \<open>
  The Alerter owns the cooldown and the map from service name to the instant of the last
  alert. \<^verbatim>\<open>Notify\<close> runs its read-check-update of the map under the mutex, so one call is
  one atomic step on the map; the model passes the Alerter in and returns it updated.
  What a call does besides updating the map is returned as a list of effects: the
  suppression log line, and the goroutine started by \<^verbatim>\<open>go a.send(result, prev)\<close>.
\<close>

record Alerter =
  webhookURL :: string
  cooldown :: int
  lastAlert :: "string \<rightharpoonup> int"

datatype alert_effect =
  LogSuppressed string
  | GoSend CheckResult string

definition alert_New :: "string \<Rightarrow> int \<Rightarrow> Alerter" where
  "alert_New url cd = \<lparr>webhookURL = url, cooldown = cd, lastAlert = Map.empty\<rparr>"

definition maxDuration :: int where
  "maxDuration = 2 ^ 63 - 1"

definition minDuration :: int where
  "minDuration = - (2 ^ 63)"

text \<open>
  \<^verbatim>\<open>time.Since(t)\<close> is \<^verbatim>\<open>Now().Sub(t)\<close>: the difference of the two instants, saturated to
  the range of a Duration. The first argument is the clock reading taken by the call.
\<close>

definition Since :: "int \<Rightarrow> int \<Rightarrow> int" where
  "Since now t =
     (let d = now - t
      in if d > maxDuration then maxDuration
         else if d < minDuration then minDuration
         else d)"

text \<open>
  \<^verbatim>\<open>Notify\<close> reads the clock twice: once inside \<^verbatim>\<open>time.Since(last)\<close> (reading \<open>t1\<close>, only
  when the service has an entry) and once in \<^verbatim>\<open>time.Now()\<close> when it records the alert
  (reading \<open>t2\<close>). A nil \<^verbatim>\<open>previousStatus\<close> is \<open>None\<close>.
\<close>

definition Notify ::
  "Alerter \<Rightarrow> int \<Rightarrow> int \<Rightarrow> CheckResult \<Rightarrow> Status option \<Rightarrow> Alerter \<times> alert_effect list" where
  "Notify a t1 t2 result previousStatus =
     (case previousStatus of
        None \<Rightarrow> (a, [])
      | Some prev \<Rightarrow>
          if Status result = prev then (a, [])
          else
            (case lastAlert a (ServiceName result) of
               Some lastT \<Rightarrow>
                 if Since t1 lastT < cooldown a
                 then (a, [LogSuppressed (ServiceName result)])
                 else (a\<lparr>lastAlert := (lastAlert a)(ServiceName result \<mapsto> t2)\<rparr>,
                       [GoSend result prev])
             | None \<Rightarrow>
                 (a\<lparr>lastAlert := (lastAlert a)(ServiceName result \<mapsto> t2)\<rparr>,
                  [GoSend result prev])))"

text \<open>The goroutines a call starts, and whether the call was inside the cooldown window.\<close>

fun sends :: "alert_effect list \<Rightarrow> (CheckResult \<times> string) list" where
  "sends [] = []"
| "sends (GoSend r p # es) = (r, p) # sends es"
| "sends (LogSuppressed n # es) = sends es"

definition inCooldown :: "Alerter \<Rightarrow> int \<Rightarrow> string \<Rightarrow> bool" where
  "inCooldown a t1 name =
     (case lastAlert a name of
        None \<Rightarrow> False
      | Some lastT \<Rightarrow> Since t1 lastT < cooldown a)"

section \<open>Service descriptors (internal/config/config.go)\<close>

text \<open>
  \<^verbatim>\<open>config.Service\<close>. \<open>Interval\<close> and \<open>Timeout\<close> are the nanoseconds of the embedded
  \<^verbatim>\<open>time.Duration\<close>; \<open>Headers\<close> is the Go map.
\<close>

record Service =
  Name :: string
  Type :: string
  Target :: string
  Interval :: int
  Timeout :: int
  ExpectedStatus :: int
  Headers :: "string \<rightharpoonup> string"

section \<open>Formatting helpers\<close>

text \<open>
  \<^verbatim>\<open>%d\<close> of an int is its decimal text. \<^verbatim>\<open>%q\<close> (strconv.Quote) is taken as a parameter
  \<open>q\<close> wherever a message uses it; \<open>quotePlain\<close> is what it returns on a string of printable
  ASCII characters without a double quote or a backslash, and is used for examples only.
\<close>

definition digitChar :: "nat \<Rightarrow> char" where
  "digitChar n = ''0123456789'' ! n"

function natStr :: "nat \<Rightarrow> string" where
  "natStr n = (if n < 10 then [digitChar n] else natStr (n div 10) @ [digitChar (n mod 10)])"
  by pat_completeness auto
termination
  by (relation "measure id") auto

definition Itoa :: "int \<Rightarrow> string" where
  "Itoa i = (if i < 0 then CHR ''-'' # natStr (nat (- i)) else natStr (nat i))"

definition quotePlain :: "string \<Rightarrow> string" where
  "quotePlain s = CHR 0x22 # s @ [CHR 0x22]"

section \<open>Checkers (package checker)\<close>

text \<open>
  A probe talks to the network, to a child process or to the Docker socket. What those
  calls return is the input of the model: one record holds the clock readings and the
  outcome of each external call a \<^verbatim>\<open>Check\<close> can make. On every path \<^verbatim>\<open>time.Since(start)\<close>
  is evaluated exactly once; \<open>elapsed\<close> is its value.
\<close>

text \<open>
  \<^verbatim>\<open>http.Client.Do\<close> returns a \<^verbatim>\<open>*url.Error\<close> on failure, whose text is
  \<^verbatim>\<open>fmt.Sprintf("%s %q: %s", e.Op, e.URL, e.Err)\<close>.
\<close>

record url_Error =
  Op :: string
  URL :: string
  Err :: string

definition url_Error_text :: "(string \<Rightarrow> string) \<Rightarrow> url_Error \<Rightarrow> string" where
  "url_Error_text q e = Op e @ '' '' @ q (URL e) @ '': '' @ Err e"

datatype http_outcome =
  NewRequestFailed string
  | DoFailed url_Error
  | DoResponse int

datatype decode_outcome =
  DecodeFailed string
  | Decoded bool

datatype inspect_outcome =
  InspectRequestFailed string
  | InspectDoFailed string
  | InspectResponse int decode_outcome

record probe =
  startAt :: int
  elapsed :: int
  httpOut :: http_outcome
  dialOut :: "string option"
  pingStdout :: string
  pingErr :: "string option"
  dockerOut :: inspect_outcome

datatype go_panic = NilPointerDereference | NonPositiveTickerInterval

subsection \<open>HTTP\<close>

definition httpChecker_Check ::
  "(string \<Rightarrow> string) \<Rightarrow> Service \<Rightarrow> probe \<Rightarrow> CheckResult" where
  "httpChecker_Check q svc w =
     (let result = \<lparr>ServiceName = Name svc, Status = [], ResponseTime = 0, Error = [],
                     CheckedAt = startAt w\<rparr>
      in case httpOut w of
           NewRequestFailed err \<Rightarrow>
             result\<lparr>Status := StatusDown, Error := ''creating request: '' @ err,
                    ResponseTime := elapsed w\<rparr>
         | DoFailed err \<Rightarrow>
             result\<lparr>ResponseTime := elapsed w, Status := StatusDown,
                    Error := url_Error_text q err\<rparr>
         | DoResponse statusCode \<Rightarrow>
             (let expected = (if ExpectedStatus svc = 0 then 200 else ExpectedStatus svc)
              in if statusCode \<noteq> expected
                 then result\<lparr>ResponseTime := elapsed w, Status := StatusDown,
                             Error := ''expected status '' @ Itoa expected @ '', got ''
                                        @ Itoa statusCode\<rparr>
                 else result\<lparr>ResponseTime := elapsed w, Status := StatusUp\<rparr>))"

subsection \<open>TCP\<close>

definition tcpChecker_Check :: "Service \<Rightarrow> probe \<Rightarrow> CheckResult" where
  "tcpChecker_Check svc w =
     (let result = \<lparr>ServiceName = Name svc, Status = [], ResponseTime = 0, Error = [],
                     CheckedAt = startAt w\<rparr>
      in case dialOut w of
           Some err \<Rightarrow>
             result\<lparr>ResponseTime := elapsed w, Status := StatusDown,
                    Error := ''dial tcp '' @ Target svc @ '': '' @ err\<rparr>
         | None \<Rightarrow> result\<lparr>ResponseTime := elapsed w, Status := StatusUp\<rparr>)"

subsection \<open>Ping\<close>

text \<open>
  \<^verbatim>\<open>rttRegex = regexp.MustCompile(`time=(\d+\.?\d*)\s*ms`)\<close>. The pattern has no
  alternation and every repetition is followed by a character outside its class, so the
  leftmost match is found by trying each start position in turn and reading greedily:
  the literal \<^verbatim>\<open>time=\<close>, one or more digits, an optional dot, digits, white space
  (\<^verbatim>\<open>[\t\n\f\r ]\<close>), the literal \<^verbatim>\<open>ms\<close>. \<open>FindSubmatch\<close> returns the text of group 1, or
  \<open>None\<close> for Go's nil.
\<close>

definition isDigit :: "char \<Rightarrow> bool" where
  "isDigit c = (48 \<le> (of_char c :: nat) \<and> (of_char c :: nat) \<le> 57)"

definition isSpace :: "char \<Rightarrow> bool" where
  "isSpace c = ((of_char c :: nat) \<in> {9, 10, 12, 13, 32})"

fun stripPrefix :: "string \<Rightarrow> string \<Rightarrow> string option" where
  "stripPrefix [] s = Some s"
| "stripPrefix (p # ps) [] = None"
| "stripPrefix (p # ps) (c # cs) = (if p = c then stripPrefix ps cs else None)"

definition rttMatchAt :: "string \<Rightarrow> string option" where
  "rttMatchAt s =
     (case stripPrefix ''time='' s of
        None \<Rightarrow> None
      | Some r1 \<Rightarrow>
          (let ds = takeWhile isDigit r1;
               r2 = dropWhile isDigit r1;
               dot = (if r2 \<noteq> [] \<and> hd r2 = CHR ''.'' then ''.'' else []);
               r3 = drop (length dot) r2;
               fs = takeWhile isDigit r3;
               r4 = dropWhile isDigit r3;
               r5 = dropWhile isSpace r4
           in if ds \<noteq> [] \<and> stripPrefix ''ms'' r5 \<noteq> None
              then Some (ds @ dot @ fs)
              else None))"

fun FindSubmatch :: "string \<Rightarrow> string option" where
  "FindSubmatch [] = None"
| "FindSubmatch (c # cs) =
     (case rttMatchAt (c # cs) of
        Some g \<Rightarrow> Some g
      | None \<Rightarrow> FindSubmatch cs)"


text \<open>
  The round-trip time is computed in floating point:
  \<^verbatim>\<open>ms, _ := strconv.ParseFloat(string(matches[1]), 64)\<close> and
  \<^verbatim>\<open>time.Duration(ms * float64(time.Millisecond))\<close>. That conversion from the matched text
  to nanoseconds is the parameter \<open>rtt\<close>. The command line built for the executor only
  reaches the executor, whose return values are inputs here.
\<close>

definition pingChecker_Check ::
  "(string \<Rightarrow> int) \<Rightarrow> Service \<Rightarrow> probe \<Rightarrow> CheckResult" where
  "pingChecker_Check rtt svc w =
     (let result = \<lparr>ServiceName = Name svc, Status = [], ResponseTime = 0, Error = [],
                     CheckedAt = startAt w\<rparr>
      in case pingErr w of
           Some err \<Rightarrow>
             result\<lparr>ResponseTime := elapsed w, Status := StatusDown,
                    Error := ''ping '' @ Target svc @ '': '' @ err\<rparr>
         | None \<Rightarrow>
             (case FindSubmatch (pingStdout w) of
                None \<Rightarrow>
                  result\<lparr>ResponseTime := elapsed w, Status := StatusDown,
                         Error := ''could not parse RTT from ping output''\<rparr>
              | Some m \<Rightarrow> result\<lparr>ResponseTime := rtt m, Status := StatusUp\<rparr>))"

subsection \<open>Docker\<close>

record ContainerState =
  Running :: bool

text \<open>
  \<^verbatim>\<open>unixDockerClient.InspectContainer\<close>: the pair \<^verbatim>\<open>(*ContainerState, error)\<close> it returns,
  from the outcome of building the request, of sending it, and of decoding the body.
\<close>

definition InspectContainer ::
  "(string \<Rightarrow> string) \<Rightarrow> string \<Rightarrow> inspect_outcome \<Rightarrow> ContainerState option \<times> string option" where
  "InspectContainer q name out =
     (case out of
        InspectRequestFailed err \<Rightarrow> (None, Some (''creating request: '' @ err))
      | InspectDoFailed err \<Rightarrow> (None, Some (''querying docker socket: '' @ err))
      | InspectResponse statusCode body \<Rightarrow>
          if statusCode = 404 then (None, Some (''container '' @ q name @ '' not found''))
          else if statusCode \<noteq> 200
          then (None, Some (''docker API returned status '' @ Itoa statusCode))
          else
            (case body of
               DecodeFailed err \<Rightarrow> (None, Some (''decoding docker response: '' @ err))
             | Decoded running \<Rightarrow> (Some \<lparr>Running = running\<rparr>, None)))"

text \<open>
  \<^verbatim>\<open>dockerChecker.Check\<close> on what its client returned. With a nil error it reads
  \<^verbatim>\<open>state.Running\<close> through the pointer, which panics on a nil state.
\<close>

definition dockerChecker_Check ::
  "(string \<Rightarrow> string) \<Rightarrow> Service \<Rightarrow> probe \<Rightarrow> ContainerState option \<times> string option
     \<Rightarrow> go_panic + CheckResult" where
  "dockerChecker_Check q svc w ret =
     (let result = \<lparr>ServiceName = Name svc, Status = [], ResponseTime = 0, Error = [],
                     CheckedAt = startAt w\<rparr>
      in case snd ret of
           Some err \<Rightarrow> Inr (result\<lparr>ResponseTime := elapsed w, Status := StatusDown, Error := err\<rparr>)
         | None \<Rightarrow>
             (case fst ret of
                None \<Rightarrow> Inl NilPointerDereference
              | Some state \<Rightarrow>
                  if \<not> Running state
                  then Inr (result\<lparr>ResponseTime := elapsed w, Status := StatusDown,
                                   Error := ''container '' @ q (Target svc) @ '' is not running''\<rparr>)
                  else Inr (result\<lparr>ResponseTime := elapsed w, Status := StatusUp\<rparr>)))"

subsection \<open>The factory (internal/checker/checker.go)\<close>

text \<open>
  The four variants \<^verbatim>\<open>New\<close> constructs. The docker variant built by \<^verbatim>\<open>newDockerChecker\<close>
  holds the Unix-socket client. The error is
  \<^verbatim>\<open>fmt.Errorf("unknown checker type %q", svc.Type)\<close>.
\<close>

datatype checker =
  HTTPChecker Service
  | TCPChecker Service
  | PingChecker Service
  | DockerChecker Service

datatype checker_error = UnknownCheckerType string

definition checker_error_text :: "(string \<Rightarrow> string) \<Rightarrow> checker_error \<Rightarrow> string" where
  "checker_error_text q e = (case e of UnknownCheckerType t \<Rightarrow> ''unknown checker type '' @ q t)"

definition checker_New :: "Service \<Rightarrow> checker_error + checker" where
  "checker_New svc =
     (if Type svc = ''http'' then Inr (HTTPChecker svc)
      else if Type svc = ''tcp'' then Inr (TCPChecker svc)
      else if Type svc = ''ping'' then Inr (PingChecker svc)
      else if Type svc = ''docker'' then Inr (DockerChecker svc)
      else Inl (UnknownCheckerType (Type svc)))"

text \<open>\<^verbatim>\<open>c.Check(ctx)\<close> through the interface, for a checker the factory built.\<close>

fun Check ::
  "(string \<Rightarrow> string) \<Rightarrow> (string \<Rightarrow> int) \<Rightarrow> checker \<Rightarrow> probe \<Rightarrow> go_panic + CheckResult" where
  "Check q rtt (HTTPChecker svc) w = Inr (httpChecker_Check q svc w)"
| "Check q rtt (TCPChecker svc) w = Inr (tcpChecker_Check svc w)"
| "Check q rtt (PingChecker svc) w = Inr (pingChecker_Check rtt svc w)"
| "Check q rtt (DockerChecker svc) w =
     dockerChecker_Check q svc w (InspectContainer q (Target svc) (dockerOut w))"

section \<open>Storage (internal/storage/sqlite.go)\<close>

record Check_row =
  chk_ID :: int
  chk_Service :: string
  chk_Status :: string
  chk_ResponseMs :: int
  chk_Error :: string
  chk_CheckedAt :: int

text \<open>
  What \<^verbatim>\<open>scanCheck(row)\<close> returned inside \<^verbatim>\<open>DB.LatestCheck\<close>: \<^verbatim>\<open>sql.ErrNoRows\<close>, another
  error, or the row. \<^verbatim>\<open>LatestCheck\<close> turns it into its pair \<^verbatim>\<open>(*Check, error)\<close>.
\<close>

datatype scan_outcome =
  ErrNoRows
  | ScanFailed string
  | Scanned Check_row

definition DB_LatestCheck ::
  "(string \<Rightarrow> string) \<Rightarrow> string \<Rightarrow> scan_outcome \<Rightarrow> Check_row option \<times> string option" where
  "DB_LatestCheck q service sc =
     (case sc of
        ErrNoRows \<Rightarrow> (None, None)
      | ScanFailed err \<Rightarrow>
          (None, Some (''querying latest check for '' @ q service @ '': '' @ err))
      | Scanned c \<Rightarrow> (Some c, None))"

section \<open>Scheduler (internal/scheduler/scheduler.go)\<close>

text \<open>
  The scheduler reaches the store, the checker and the callback through interfaces. A
  run is recorded as the sequence of those calls and of the log lines, in program order.
  The values the calls return are inputs: \<open>latest\<close> is the pair returned by
  \<^verbatim>\<open>s.store.LatestCheck\<close>, \<open>checked\<close> the result of \<^verbatim>\<open>c.Check\<close>, \<open>inserted\<close> the error
  of \<^verbatim>\<open>s.store.InsertCheck\<close> (\<open>None\<close> for nil).
\<close>

record probe_returns =
  latest :: "Check_row option \<times> string option"
  checked :: CheckResult
  inserted :: "string option"

datatype sched_event =
  CallLatestCheck string
  | LogWarnFetching string string
  | CallCheck string
  | LogInfoResult CheckResult
  | CallInsertCheck CheckResult
  | LogErrorStoring string string
  | CallOnResult CheckResult "Status option"
  | CallNewTicker int
  | CallTickerStop
  | CallWgDone

text \<open>\<open>hasOnResult\<close> says whether \<^verbatim>\<open>s.onResult != nil\<close>.\<close>

definition runCheck :: "bool \<Rightarrow> Service \<Rightarrow> probe_returns \<Rightarrow> sched_event list" where
  "runCheck hasOnResult svc ret =
     (let prev = fst (latest ret);
          err = snd (latest ret);
          result = checked ret
      in [CallLatestCheck (Name svc)]
         @ (case err of Some e \<Rightarrow> [LogWarnFetching (Name svc) e] | None \<Rightarrow> [])
         @ [CallCheck (Name svc), LogInfoResult result, CallInsertCheck result]
         @ (case inserted ret of Some e \<Rightarrow> [LogErrorStoring (Name svc) e] | None \<Rightarrow> [])
         @ (if hasOnResult
            then [CallOnResult result
                    (case prev of None \<Rightarrow> None | Some p \<Rightarrow> Some (chk_Status p))]
            else []))"

text \<open>
  The \<^verbatim>\<open>select\<close> of \<^verbatim>\<open>runService\<close> takes one of two cases each time it is reached. The
  cases taken are the input, in order; a tick carries what the calls of that probe return.
  When the list is used up the task is blocked in \<^verbatim>\<open>select\<close>. \<^verbatim>\<open>time.NewTicker\<close> panics on
  an interval that is not positive; the deferred calls run on return and on panic.
\<close>

datatype select_case =
  CtxDone
  | TickerC probe_returns

datatype task_state =
  Returned
  | BlockedInSelect
  | Panicked go_panic

fun serviceLoop ::
  "bool \<Rightarrow> Service \<Rightarrow> select_case list \<Rightarrow> sched_event list \<times> task_state" where
  "serviceLoop hasOnResult svc [] = ([], BlockedInSelect)"
| "serviceLoop hasOnResult svc (CtxDone # rest) = ([CallTickerStop, CallWgDone], Returned)"
| "serviceLoop hasOnResult svc (TickerC ret # rest) =
     (let (evs, st) = serviceLoop hasOnResult svc rest
      in (runCheck hasOnResult svc ret @ evs, st))"

definition runService ::
  "bool \<Rightarrow> Service \<Rightarrow> probe_returns \<Rightarrow> select_case list \<Rightarrow> sched_event list \<times> task_state" where
  "runService hasOnResult svc first cases =
     (let evs0 = runCheck hasOnResult svc first @ [CallNewTicker (Interval svc)]
      in if Interval svc \<le> 0
         then (evs0 @ [CallWgDone], Panicked NonPositiveTickerInterval)
         else (let (evs, st) = serviceLoop hasOnResult svc cases in (evs0 @ evs, st)))"

text \<open>
  \<^verbatim>\<open>Scheduler.Start\<close>: the loop over the services with the factory of the scheduler. It
  returns what the loop did: an error log line for a service whose factory call failed,
  a started goroutine \<^verbatim>\<open>go s.runService(ctx, svc, c)\<close> otherwise.
\<close>

datatype ('c, 'e) start_effect =
  LogErrorCreating string 'e
  | GoRunService Service 'c

fun Start :: "(Service \<Rightarrow> 'e + 'c) \<Rightarrow> Service list \<Rightarrow> ('c, 'e) start_effect list" where
  "Start factory [] = []"
| "Start factory (svc # rest) =
     (case factory svc of
        Inl err \<Rightarrow> LogErrorCreating (Name svc) err # Start factory rest
      | Inr c \<Rightarrow> GoRunService svc c # Start factory rest)"

fun started :: "('c, 'e) start_effect list \<Rightarrow> (Service \<times> 'c) list" where
  "started [] = []"
| "started (GoRunService svc c # es) = (svc, c) # started es"
| "started (LogErrorCreating n e # es) = started es"



fun isProbe :: "sched_event \<Rightarrow> bool" where
  "isProbe (CallCheck n) = True"
| "isProbe ev = False"

definition probes :: "sched_event list \<Rightarrow> nat" where
  "probes evs = length (filter isProbe evs)"

section \<open>Durations in the configuration (time.ParseDuration)\<close>

text \<open>
  \<^verbatim>\<open>Load\<close> reads intervals and timeouts with Go's \<^verbatim>\<open>time.ParseDuration\<close>, modelled here
  after the library's source: an optional sign, then one or more terms of digits, an
  optional fraction and a unit, summed in unsigned 64-bit arithmetic with the library's
  overflow checks. The one floating-point step, the nanoseconds of a fraction
  \<^verbatim>\<open>uint64(float64(f) * (float64(unit) / scale))\<close>, is the parameter \<open>fr\<close>, given \<open>f\<close>, the
  unit and the number of times \<open>scale\<close> was multiplied by ten.
\<close>

datatype duration_error =
  InvalidDuration string
  | MissingUnit string
  | UnknownUnit string string

definition two63 :: nat where
  "two63 = 9223372036854775808"

definition two64 :: nat where
  "two64 = 18446744073709551616"

definition unitMap :: "string \<Rightarrow> nat option" where
  "unitMap u =
     (if u = ''ns'' then Some 1
      else if u = ''us'' then Some 1000
      else if u = [CHR 0xC2, CHR 0xB5, CHR ''s''] then Some 1000
      else if u = [CHR 0xCE, CHR 0xBC, CHR ''s''] then Some 1000
      else if u = ''ms'' then Some 1000000
      else if u = ''s'' then Some 1000000000
      else if u = ''m'' then Some 60000000000
      else if u = ''h'' then Some 3600000000000
      else None)"

fun leadingInt :: "nat \<Rightarrow> string \<Rightarrow> (nat \<times> string) option" where
  "leadingInt x [] = Some (x, [])"
| "leadingInt x (c # cs) =
     (if \<not> isDigit c then Some (x, c # cs)
      else if x > two63 div 10 then None
      else (let x' = x * 10 + (of_char c - 48)
            in if x' > two63 then None else leadingInt x' cs))"

fun leadingFraction :: "nat \<Rightarrow> nat \<Rightarrow> bool \<Rightarrow> string \<Rightarrow> nat \<times> nat \<times> string" where
  "leadingFraction x k overflow [] = (x, k, [])"
| "leadingFraction x k overflow (c # cs) =
     (if \<not> isDigit c then (x, k, c # cs)
      else if overflow then leadingFraction x k overflow cs
      else if x > (two63 - 1) div 10 then leadingFraction x k True cs
      else (let y = x * 10 + (of_char c - 48)
            in if y > two63 then leadingFraction x k True cs
               else leadingFraction y (k + 1) overflow cs))"

definition numChar :: "char \<Rightarrow> bool" where
  "numChar c = (c = CHR ''.'' \<or> isDigit c)"

text \<open>One pass of the loop body: the value of the next term and the rest of the string.\<close>

definition parseTerm ::
  "(nat \<Rightarrow> nat \<Rightarrow> nat \<Rightarrow> nat) \<Rightarrow> string \<Rightarrow> string \<Rightarrow> duration_error + (nat \<times> string)" where
  "parseTerm fr orig s =
     (if s = [] \<or> \<not> numChar (hd s) then Inl (InvalidDuration orig)
      else
        (case leadingInt 0 s of
           None \<Rightarrow> Inl (InvalidDuration orig)
         | Some (v, s1) \<Rightarrow>
             (let pre = (length s \<noteq> length s1);
                  hasDot = (s1 \<noteq> [] \<and> hd s1 = CHR ''.'');
                  frac = (if hasDot then leadingFraction 0 0 False (tl s1) else (0, 0, s1));
                  f = fst frac;
                  k = fst (snd frac);
                  s2 = snd (snd frac);
                  post = (hasDot \<and> length (tl s1) \<noteq> length s2);
                  u = takeWhile (\<lambda>c. \<not> numChar c) s2;
                  s3 = dropWhile (\<lambda>c. \<not> numChar c) s2
              in if \<not> pre \<and> \<not> post then Inl (InvalidDuration orig)
                 else if u = [] then Inl (MissingUnit orig)
                 else
                   (case unitMap u of
                      None \<Rightarrow> Inl (UnknownUnit u orig)
                    | Some unit \<Rightarrow>
                        if v > two63 div unit then Inl (InvalidDuration orig)
                        else if f > 0
                        then (let v2 = (v * unit + fr f unit k mod two64) mod two64
                              in if v2 > two63 then Inl (InvalidDuration orig)
                                 else Inr (v2, s3))
                        else Inr (v * unit, s3)))))"

lemma leadingInt_length: "leadingInt x s = Some (v, r) \<Longrightarrow> length r \<le> length s"
  by (induction x s rule: leadingInt.induct) (auto simp: Let_def split: if_splits)

lemma leadingFraction_length: "length (snd (snd (leadingFraction x k b s))) \<le> length s"
proof (induction s arbitrary: x k b)
  case Nil
  show ?case by simp
next
  case (Cons c cs)
  have "length (snd (snd (leadingFraction x' k' b' cs))) \<le> Suc (length cs)" for x' k' b'
    using Cons.IH [of x' k' b'] by simp
  then show ?case by (simp add: Let_def)
qed

lemma dropWhile_shorter: "takeWhile P s \<noteq> [] \<Longrightarrow> length (dropWhile P s) < length s"
  by (cases s) (auto simp: le_imp_less_Suc length_dropWhile_le split: if_splits)

lemma parseTerm_length:
  assumes "parseTerm fr orig s = Inr (v, r)"
  shows "length r < length s"
proof -
  from assms obtain v0 s1 where li: "leadingInt 0 s = Some (v0, s1)"
    by (auto simp: parseTerm_def split: if_splits option.splits)
  define hasDot where "hasDot = (s1 \<noteq> [] \<and> hd s1 = CHR ''.'')"
  define s2 where
    "s2 = snd (snd (if hasDot then leadingFraction 0 0 False (tl s1) else (0, 0, s1)))"
  have "length s1 \<le> length s"
    using li by (rule leadingInt_length)
  moreover have "length s2 \<le> length s1"
  proof (cases hasDot)
    case True
    then have "length s2 \<le> length (tl s1)"
      unfolding s2_def by (simp only: if_True leadingFraction_length)
    also have "length (tl s1) \<le> length s1" by simp
    finally show ?thesis .
  next
    case False
    then show ?thesis by (simp add: s2_def)
  qed
  moreover have "takeWhile (\<lambda>c. \<not> numChar c) s2 \<noteq> []" and "r = dropWhile (\<lambda>c. \<not> numChar c) s2"
    using assms li
    by (auto simp: parseTerm_def Let_def s2_def hasDot_def split: if_splits option.splits)
  ultimately show ?thesis
    using dropWhile_shorter [of "\<lambda>c. \<not> numChar c" s2] by simp
qed

function parseTerms ::
  "(nat \<Rightarrow> nat \<Rightarrow> nat \<Rightarrow> nat) \<Rightarrow> string \<Rightarrow> nat \<Rightarrow> string \<Rightarrow> duration_error + nat" where
  "parseTerms fr orig d s =
     (if s = [] then Inr d
      else
        (case parseTerm fr orig s of
           Inl e \<Rightarrow> Inl e
         | Inr (v, s') \<Rightarrow>
             (let d' = (d + v) mod two64
              in if d' > two63 then Inl (InvalidDuration orig)
                 else parseTerms fr orig d' s')))"
  by pat_completeness auto
termination
  by (relation "measure (\<lambda>(fr, orig, d, s). length s)") (auto dest: parseTerm_length)

definition ParseDuration ::
  "(nat \<Rightarrow> nat \<Rightarrow> nat \<Rightarrow> nat) \<Rightarrow> string \<Rightarrow> duration_error + int" where
  "ParseDuration fr orig =
     (let signed = (orig \<noteq> [] \<and> (hd orig = CHR ''-'' \<or> hd orig = CHR ''+''));
          neg = (signed \<and> hd orig = CHR ''-'');
          s = (if signed then tl orig else orig)
      in if s = ''0'' then Inr 0
         else if s = [] then Inl (InvalidDuration orig)
         else
           (case parseTerms fr orig 0 s of
              Inl e \<Rightarrow> Inl e
            | Inr d \<Rightarrow>
                if neg then Inr (- int d)
                else if d > two63 - 1 then Inl (InvalidDuration orig)
                else Inr (int d)))"

text \<open>The fraction step in exact arithmetic, for running examples.\<close>

definition fracExact :: "nat \<Rightarrow> nat \<Rightarrow> nat \<Rightarrow> nat" where
  "fracExact f unit k = f * unit div 10 ^ k"

section \<open>Configuration (internal/config/config.go)\<close>

text \<open>
  \<^verbatim>\<open>Load\<close> reads the file and decodes the YAML into \<^verbatim>\<open>rawConfig\<close>, whose services hold the
  interval and the timeout as the strings of the file (empty when the key is absent).
  The model starts from the decoded \<^verbatim>\<open>rawConfig\<close>. Each \<^verbatim>\<open>fmt.Errorf\<close> of the function is
  one constructor of \<open>config_error\<close>, with the values the message prints.
\<close>

record rawService =
  raw_Name :: string
  raw_Type :: string
  raw_Target :: string
  raw_Interval :: string
  raw_Timeout :: string
  raw_ExpectedStatus :: int
  raw_Headers :: "string \<rightharpoonup> string"

record WebhookConfig =
  webhook_URL :: string
  webhook_Cooldown :: int

record rawConfig =
  raw_Services :: "rawService list"
  raw_Alerts :: WebhookConfig
  raw_Address :: string
  raw_Path :: string

record Config =
  Services :: "Service list"
  Alerts :: WebhookConfig
  Address :: string
  Path :: string

datatype config_error =
  NoServices
  | NameRequired nat
  | DuplicateName string
  | TargetRequired string
  | InvalidType string string
  | InvalidInterval string string duration_error
  | InvalidTimeout string string duration_error

definition validTypes :: "string \<Rightarrow> bool" where
  "validTypes t = (t = ''http'' \<or> t = ''tcp'' \<or> t = ''ping'' \<or> t = ''docker'')"

definition Second :: int where
  "Second = 1000000000"

text \<open>
  The loop over \<^verbatim>\<open>raw.Services\<close>, with the index \<open>i\<close> and the map \<open>names\<close> of the names
  seen so far (a missing key reads as false). It returns at the first error; otherwise
  the services are appended in order.
\<close>

fun loadServices ::
  "(nat \<Rightarrow> nat \<Rightarrow> nat \<Rightarrow> nat) \<Rightarrow> nat \<Rightarrow> (string \<Rightarrow> bool) \<Rightarrow> rawService list
     \<Rightarrow> config_error + Service list" where
  "loadServices fr i names [] = Inr []"
| "loadServices fr i names (rs # rest) =
     (if raw_Name rs = [] then Inl (NameRequired i)
      else if names (raw_Name rs) then Inl (DuplicateName (raw_Name rs))
      else if raw_Target rs = [] then Inl (TargetRequired (raw_Name rs))
      else if \<not> validTypes (raw_Type rs) then Inl (InvalidType (raw_Name rs) (raw_Type rs))
      else
        (case (if raw_Interval rs = [] then Inr (30 * Second)
               else ParseDuration fr (raw_Interval rs)) of
           Inl err \<Rightarrow> Inl (InvalidInterval (raw_Name rs) (raw_Interval rs) err)
         | Inr interval \<Rightarrow>
             (case (if raw_Timeout rs = [] then Inr (5 * Second)
                    else ParseDuration fr (raw_Timeout rs)) of
                Inl err \<Rightarrow> Inl (InvalidTimeout (raw_Name rs) (raw_Timeout rs) err)
              | Inr timeout \<Rightarrow>
                  (let svc = \<lparr>Name = raw_Name rs, Type = raw_Type rs, Target = raw_Target rs,
                              Interval = interval, Timeout = timeout,
                              ExpectedStatus =
                                (if raw_Type rs = ''http'' \<and> raw_ExpectedStatus rs = 0 then 200
                                 else raw_ExpectedStatus rs),
                              Headers = raw_Headers rs\<rparr>
                   in case loadServices fr (i + 1) (names(raw_Name rs := True)) rest of
                        Inl err \<Rightarrow> Inl err
                      | Inr svcs \<Rightarrow> Inr (svc # svcs)))))"

definition Load :: "(nat \<Rightarrow> nat \<Rightarrow> nat \<Rightarrow> nat) \<Rightarrow> rawConfig \<Rightarrow> config_error + Config" where
  "Load fr raw =
     (let address = (if raw_Address raw = [] then '':8080'' else raw_Address raw);
          path = (if raw_Path raw = [] then ''servprobe.db'' else raw_Path raw)
      in if raw_Services raw = [] then Inl NoServices
         else
           (case loadServices fr 0 (\<lambda>n. False) (raw_Services raw) of
              Inl err \<Rightarrow> Inl err
            | Inr svcs \<Rightarrow>
                Inr \<lparr>Services = svcs, Alerts = raw_Alerts raw, Address = address, Path = path\<rparr>))"

section \<open>The one-off check command (cmd/servprobe, runChecks)\<close>







declare natStr.simps [simp del]

declare parseTerms.simps [simp del]

section \<open>Example inputs\<close>

text \<open>
  Concrete values on which the theorems below are run: a Down result for the service
  \<open>api\<close>, and an Alerter with a cooldown of one hour that alerted for \<open>api\<close> at instant 5.
\<close>

definition exDown :: CheckResult where
  "exDown = \<lparr>ServiceName = ''api'', Status = StatusDown, ResponseTime = 10000000,
             Error = ''connection refused'', CheckedAt = 0\<rparr>"

definition exAlerted :: Alerter where
  "exAlerted = \<lparr>webhookURL = ''http://hooks.example.com/alert'', cooldown = 3600000000000,
                lastAlert = [''api'' \<mapsto> 5]\<rparr>"

text \<open>
  A fresh Alerter as \<^verbatim>\<open>alert.New\<close> builds it, and Down results for two services.
\<close>

definition exFresh :: Alerter where
  "exFresh = alert_New ''http://hooks.example.com/alert'' 3600000000000"

definition exSvc1Down :: CheckResult where
  "exSvc1Down = \<lparr>ServiceName = ''svc1'', Status = StatusDown, ResponseTime = 10000000,
                 Error = ''timeout'', CheckedAt = 0\<rparr>"

definition exSvc2Down :: CheckResult where
  "exSvc2Down = \<lparr>ServiceName = ''svc2'', Status = StatusDown, ResponseTime = 10000000,
                 Error = ''timeout'', CheckedAt = 1\<rparr>"

text \<open>
  A service probed every 30 seconds, and three probes of it as the scheduler sees them:
  the first finds no stored row; the second fails to read the store and fails to write to
  it; the third finds a stored row with status \<open>up\<close>.
\<close>

definition exApi :: Service where
  "exApi = \<lparr>Name = ''api'', Type = ''http'', Target = ''http://example.com'',
            Interval = 30000000000, Timeout = 5000000000, ExpectedStatus = 200,
            Headers = Map.empty\<rparr>"

definition exRow :: Check_row where
  "exRow = \<lparr>chk_ID = 1, chk_Service = ''api'', chk_Status = ''up'', chk_ResponseMs = 10,
            chk_Error = [], chk_CheckedAt = 0\<rparr>"

definition exProbeFirst :: probe_returns where
  "exProbeFirst = \<lparr>latest = DB_LatestCheck quotePlain ''api'' ErrNoRows, checked = exDown,
                   inserted = None\<rparr>"

definition exProbeStoreDown :: probe_returns where
  "exProbeStoreDown = \<lparr>latest = DB_LatestCheck quotePlain ''api'' (ScanFailed ''database is locked''),
                       checked = exDown, inserted = Some ''database is locked''\<rparr>"

definition exProbeAfterUp :: probe_returns where
  "exProbeAfterUp = \<lparr>latest = DB_LatestCheck quotePlain ''api'' (Scanned exRow), checked = exDown,
                     inserted = None\<rparr>"

text \<open>
  A service of a type the factory does not know, and a TCP service.
\<close>

definition exFtp :: Service where
  "exFtp = \<lparr>Name = ''files'', Type = ''ftp'', Target = ''ftp://example.com'',
            Interval = 30000000000, Timeout = 5000000000, ExpectedStatus = 0,
            Headers = Map.empty\<rparr>"

definition exDb :: Service where
  "exDb = \<lparr>Name = ''db'', Type = ''tcp'', Target = ''db.example.com:5432'',
           Interval = 15000000000, Timeout = 3000000000, ExpectedStatus = 0,
           Headers = Map.empty\<rparr>"


definition exRtt :: "string \<Rightarrow> int" where
  "exRtt m = (if m = ''5'' then 5000000 else 0)"

definition exPingOutput :: string where
  "exPingOutput = ''64 bytes from 192.0.2.1: icmp_seq=1 ttl=64 time=5 ms''"



definition exWorld :: probe where
  "exWorld = \<lparr>startAt = 100, elapsed = 2000000,
              httpOut = DoResponse 200, dialOut = None,
              pingStdout = exPingOutput,
              pingErr = None,
              dockerOut = InspectResponse 200 (Decoded True)\<rparr>"



text \<open>
  An HTTP service that leaves \<^verbatim>\<open>expected_status\<close> at zero, a docker service, and outcomes
  of their calls: a response with status 503, a refused connection, a stopped container.
\<close>

definition exWeb :: Service where
  "exWeb = \<lparr>Name = ''web'', Type = ''http'', Target = ''http://example.com/health'',
            Interval = 30000000000, Timeout = 5000000000, ExpectedStatus = 0,
            Headers = Map.empty\<rparr>"

definition exContainer :: Service where
  "exContainer = \<lparr>Name = ''cache'', Type = ''docker'', Target = ''redis'',
                  Interval = 30000000000, Timeout = 5000000000, ExpectedStatus = 0,
                  Headers = Map.empty\<rparr>"

definition exUnavailable :: probe where
  "exUnavailable = exWorld\<lparr>httpOut := DoResponse 503\<rparr>"

definition exRefused :: probe where
  "exRefused = exWorld\<lparr>httpOut := DoFailed \<lparr>Op = ''Get'', URL = ''http://example.com/health'',
                                              Err = ''connection refused''\<rparr>,
                         dialOut := Some ''connection refused''\<rparr>"

definition exStopped :: probe where
  "exStopped = exWorld\<lparr>dockerOut := InspectResponse 200 (Decoded False)\<rparr>"

text \<open>
  Decoded configuration files. \<open>exRawConfig\<close> has an HTTP service that leaves interval and
  timeout out and a TCP service that sets them. \<open>exRawZero\<close> sets the interval of its one
  service to \<open>0\<close> and its timeout to \<open>-5s\<close>; \<open>exCfgZero\<close> is what \<^verbatim>\<open>Load\<close> returns for it.
\<close>

definition exWebhook :: WebhookConfig where
  "exWebhook = \<lparr>webhook_URL = ''https://hooks.example.com/alert'',
                webhook_Cooldown = 300000000000\<rparr>"

definition exRawApi :: rawService where
  "exRawApi = \<lparr>raw_Name = ''api'', raw_Type = ''http'',
               raw_Target = ''https://example.com/health'', raw_Interval = [],
               raw_Timeout = [], raw_ExpectedStatus = 0, raw_Headers = Map.empty\<rparr>"

definition exRawDb :: rawService where
  "exRawDb = \<lparr>raw_Name = ''db'', raw_Type = ''tcp'', raw_Target = ''db.example.com:5432'',
              raw_Interval = ''15s'', raw_Timeout = ''3s'', raw_ExpectedStatus = 0,
              raw_Headers = Map.empty\<rparr>"

definition exRawConfig :: rawConfig where
  "exRawConfig = \<lparr>raw_Services = [exRawApi, exRawDb], raw_Alerts = exWebhook,
                  raw_Address = [], raw_Path = []\<rparr>"

definition exRawZero :: rawConfig where
  "exRawZero = \<lparr>raw_Services = [exRawApi\<lparr>raw_Interval := ''0'', raw_Timeout := ''-5s''\<rparr>],
                raw_Alerts = exWebhook, raw_Address = [], raw_Path = []\<rparr>"

definition exCfgZero :: Config where
  "exCfgZero = \<lparr>Services = [\<lparr>Name = ''api'', Type = ''http'',
                              Target = ''https://example.com/health'', Interval = 0,
                              Timeout = - 5000000000, ExpectedStatus = 200,
                              Headers = Map.empty\<rparr>],
                Alerts = exWebhook, Address = '':8080'', Path = ''servprobe.db''\<rparr>"



section \<open>Alert dispatcher: the decision rule\<close>

text \<open>
  C1. For every call of \<^verbatim>\<open>Notify(result, previous_status)\<close>: with no previous status
  nothing is dispatched and the cooldown map is unchanged; with a previous status equal to
  the result's status nothing is dispatched and the map is unchanged; on a transition for a
  service alerted within the cooldown window the notification is suppressed and the
  service's last-alert instant is not updated; otherwise the current time is recorded as
  the service's last-alert instant and exactly one send is started.
\<close>

theorem Notify_decision_rule:
  "(previousStatus = None \<longrightarrow> Notify a t1 t2 r previousStatus = (a, []))
   \<and> (previousStatus = Some (Status r) \<longrightarrow> Notify a t1 t2 r previousStatus = (a, []))
   \<and> (\<forall>prev. previousStatus = Some prev \<and> prev \<noteq> Status r \<and> inCooldown a t1 (ServiceName r)
         \<longrightarrow> fst (Notify a t1 t2 r previousStatus) = a
             \<and> sends (snd (Notify a t1 t2 r previousStatus)) = []
             \<and> snd (Notify a t1 t2 r previousStatus) = [LogSuppressed (ServiceName r)])
   \<and> (\<forall>prev. previousStatus = Some prev \<and> prev \<noteq> Status r \<and> \<not> inCooldown a t1 (ServiceName r)
         \<longrightarrow> lastAlert (fst (Notify a t1 t2 r previousStatus)) (ServiceName r) = Some t2
             \<and> fst (Notify a t1 t2 r previousStatus)
                 = a\<lparr>lastAlert := (lastAlert a)(ServiceName r \<mapsto> t2)\<rparr>
             \<and> snd (Notify a t1 t2 r previousStatus) = [GoSend r prev]
             \<and> sends (snd (Notify a t1 t2 r previousStatus)) = [(r, prev)])"
  by (auto simp: Notify_def inCooldown_def split: option.splits)

theorem Notify_decision_rule_witness:
  "Notify exAlerted 7 8 exDown None = (exAlerted, [])
   \<and> Notify exAlerted 7 8 exDown (Some ''down'') = (exAlerted, [])
   \<and> inCooldown exAlerted 7 ''api''
   \<and> snd (Notify exAlerted 7 8 exDown (Some ''up'')) = [LogSuppressed ''api'']
   \<and> lastAlert (fst (Notify exAlerted 7 8 exDown (Some ''up''))) ''api'' = Some 5
   \<and> \<not> inCooldown exAlerted 3600000000005 ''api''
   \<and> snd (Notify exAlerted 3600000000005 3600000000006 exDown (Some ''up''))
       = [GoSend exDown ''up'']
   \<and> lastAlert (fst (Notify exAlerted 3600000000005 3600000000006 exDown (Some ''up''))) ''api''
       = Some 3600000000006"
  using Notify_decision_rule [of None exAlerted 7 8 exDown]
    Notify_decision_rule [of "Some ''down''" exAlerted 7 8 exDown]
    Notify_decision_rule [of "Some ''up''" exAlerted 7 8 exDown]
    Notify_decision_rule [of "Some ''up''" exAlerted 3600000000005 3600000000006 exDown]
  by (simp add: exDown_def exAlerted_def inCooldown_def Since_def maxDuration_def
      minDuration_def StatusDown_def)

section \<open>Alert dispatcher: the cooldown is per service\<close>

lemma Notify_lastAlert_other:
  "ServiceName r \<noteq> other \<Longrightarrow> lastAlert (fst (Notify a t1 t2 r prev)) other = lastAlert a other"
  by (simp add: Notify_def split: option.splits)

lemma Notify_inCooldown_other:
  "ServiceName r \<noteq> other
   \<Longrightarrow> inCooldown (fst (Notify a t1 t2 r prev)) t other = inCooldown a t other"
  by (simp add: inCooldown_def Notify_def split: option.splits)

lemma Notify_sends_transition:
  "prev \<noteq> Status r \<Longrightarrow> \<not> inCooldown a t1 (ServiceName r)
   \<Longrightarrow> sends (snd (Notify a t1 t2 r (Some prev))) = [(r, prev)]"
  by (auto simp: Notify_def inCooldown_def split: option.splits)

text \<open>
  C5. For two distinct service names, a call of \<^verbatim>\<open>Notify\<close> for one service, whether it
  notifies or suppresses, leaves the cooldown entry of the other service unchanged, and
  with it the other service's standing against the cooldown. So two transitions for
  different services, neither inside its own cooldown window, each start one send, however
  close in time the two calls are.
\<close>

theorem Notify_cooldown_per_service:
  "ServiceName r1 \<noteq> ServiceName r2 \<longrightarrow>
     lastAlert (fst (Notify a t1 t2 r1 prev1)) (ServiceName r2) = lastAlert a (ServiceName r2)
     \<and> inCooldown (fst (Notify a t1 t2 r1 prev1)) t3 (ServiceName r2)
         = inCooldown a t3 (ServiceName r2)
     \<and> (p1 \<noteq> Status r1 \<and> p2 \<noteq> Status r2
          \<and> \<not> inCooldown a t1 (ServiceName r1) \<and> \<not> inCooldown a t3 (ServiceName r2)
          \<longrightarrow> sends (snd (Notify a t1 t2 r1 (Some p1))) = [(r1, p1)]
              \<and> sends (snd (Notify (fst (Notify a t1 t2 r1 (Some p1))) t3 t4 r2 (Some p2)))
                  = [(r2, p2)])"
proof (intro impI conjI)
  assume ne: "ServiceName r1 \<noteq> ServiceName r2"
  show "lastAlert (fst (Notify a t1 t2 r1 prev1)) (ServiceName r2)
      = lastAlert a (ServiceName r2)"
    using ne by (rule Notify_lastAlert_other)
  show "inCooldown (fst (Notify a t1 t2 r1 prev1)) t3 (ServiceName r2)
      = inCooldown a t3 (ServiceName r2)"
    using ne by (rule Notify_inCooldown_other)
next
  assume ne: "ServiceName r1 \<noteq> ServiceName r2"
    and tr: "p1 \<noteq> Status r1 \<and> p2 \<noteq> Status r2
          \<and> \<not> inCooldown a t1 (ServiceName r1) \<and> \<not> inCooldown a t3 (ServiceName r2)"
  from tr show "sends (snd (Notify a t1 t2 r1 (Some p1))) = [(r1, p1)]"
    by (simp add: Notify_sends_transition)
next
  assume ne: "ServiceName r1 \<noteq> ServiceName r2"
    and tr: "p1 \<noteq> Status r1 \<and> p2 \<noteq> Status r2
          \<and> \<not> inCooldown a t1 (ServiceName r1) \<and> \<not> inCooldown a t3 (ServiceName r2)"
  let ?a' = "fst (Notify a t1 t2 r1 (Some p1))"
  have "inCooldown ?a' t3 (ServiceName r2) = inCooldown a t3 (ServiceName r2)"
    using ne by (rule Notify_inCooldown_other)
  then have "\<not> inCooldown ?a' t3 (ServiceName r2)"
    using tr by simp
  with tr show "sends (snd (Notify ?a' t3 t4 r2 (Some p2))) = [(r2, p2)]"
    by (simp add: Notify_sends_transition)
qed

theorem Notify_cooldown_per_service_witness:
  "ServiceName exSvc1Down \<noteq> ServiceName exSvc2Down
   \<and> \<not> inCooldown exFresh 10 ''svc1'' \<and> \<not> inCooldown exFresh 60 ''svc2''
   \<and> lastAlert (fst (Notify exFresh 10 11 exSvc1Down (Some ''up''))) ''svc2'' = None
   \<and> sends (snd (Notify exFresh 10 11 exSvc1Down (Some ''up''))) = [(exSvc1Down, ''up'')]
   \<and> sends (snd (Notify (fst (Notify exFresh 10 11 exSvc1Down (Some ''up''))) 60 61
                     exSvc2Down (Some ''up'')))
       = [(exSvc2Down, ''up'')]"
  using Notify_cooldown_per_service [of exSvc1Down exSvc2Down exFresh 10 11 "Some ''up''" 60
      "''up''" "''up''" 61]
  by (simp add: exSvc1Down_def exSvc2Down_def exFresh_def alert_New_def inCooldown_def
      StatusDown_def)

section \<open>Scheduler: one probe\<close>


lemma serviceLoop_ticks:
  "serviceLoop hasOnResult svc (map TickerC rets @ cases)
     = (concat (map (runCheck hasOnResult svc) rets) @ fst (serviceLoop hasOnResult svc cases),
        snd (serviceLoop hasOnResult svc cases))"
  by (induction rets) (simp_all add: case_prod_beta)

lemma runService_ticks:
  assumes "0 < Interval svc"
  shows "runService hasOnResult svc first (map TickerC rets @ cases)
     = (runCheck hasOnResult svc first @ [CallNewTicker (Interval svc)]
          @ concat (map (runCheck hasOnResult svc) rets)
          @ fst (serviceLoop hasOnResult svc cases),
        snd (serviceLoop hasOnResult svc cases))"
  using assms by (simp add: runService_def serviceLoop_ticks)

lemma probes_runCheck: "probes (runCheck hasOnResult svc ret) = 1"
  by (simp add: runCheck_def probes_def Let_def split: option.splits)

lemma probes_append: "probes (xs @ ys) = probes xs + probes ys"
  by (simp add: probes_def)

lemma probes_Cons: "probes (ev # evs) = (if isProbe ev then 1 else 0) + probes evs"
  by (simp add: probes_def)

lemma probes_Nil: "probes [] = 0"
  by (simp add: probes_def)

lemma probes_concat_runCheck:
  "probes (concat (map (runCheck hasOnResult svc) rets)) = length rets"
  by (induction rets) (simp_all add: probes_Nil probes_append probes_runCheck)



section \<open>Scheduler: the task of one service\<close>

text \<open>
  C3. A service task runs one probe on entry, before it creates the ticker and so before
  any wait for the interval. Once the \<^verbatim>\<open>select\<close> of the loop takes the cancellation case,
  the task returns: the probes it ran are the first one and one per tick taken before,
  and nothing that would have followed is run.
\<close>

theorem runService_immediate_then_cancel:
  "(\<exists>evs. fst (runService hasOnResult svc first cases)
            = runCheck hasOnResult svc first @ CallNewTicker (Interval svc) # evs)
   \<and> probes (runCheck hasOnResult svc first) = 1
   \<and> (0 < Interval svc
        \<longrightarrow> runService hasOnResult svc first (map TickerC rets @ CtxDone # later)
              = (runCheck hasOnResult svc first @ [CallNewTicker (Interval svc)]
                   @ concat (map (runCheck hasOnResult svc) rets)
                   @ [CallTickerStop, CallWgDone],
                 Returned)
            \<and> probes (fst (runService hasOnResult svc first (map TickerC rets @ CtxDone # later)))
                = 1 + length rets)"
proof (intro conjI impI)
  show "\<exists>evs. fst (runService hasOnResult svc first cases)
            = runCheck hasOnResult svc first @ CallNewTicker (Interval svc) # evs"
    by (simp add: runService_def Let_def case_prod_beta)
  show "probes (runCheck hasOnResult svc first) = 1"
    by (rule probes_runCheck)
next
  assume pos: "0 < Interval svc"
  from runService_ticks [OF pos, of hasOnResult first rets "CtxDone # later"]
  show run: "runService hasOnResult svc first (map TickerC rets @ CtxDone # later)
              = (runCheck hasOnResult svc first @ [CallNewTicker (Interval svc)]
                   @ concat (map (runCheck hasOnResult svc) rets)
                   @ [CallTickerStop, CallWgDone],
                 Returned)"
    by simp
  show "probes (fst (runService hasOnResult svc first (map TickerC rets @ CtxDone # later)))
      = 1 + length rets"
    unfolding run
    by (simp add: probes_append probes_Cons probes_Nil probes_runCheck probes_concat_runCheck)
qed

theorem runService_immediate_then_cancel_witness:
  "0 < Interval exApi
   \<and> runService True exApi exProbeFirst [TickerC exProbeStoreDown, CtxDone, TickerC exProbeAfterUp]
       = (runCheck True exApi exProbeFirst @ [CallNewTicker (Interval exApi)]
            @ runCheck True exApi exProbeStoreDown @ [CallTickerStop, CallWgDone],
          Returned)
   \<and> probes (fst (runService True exApi exProbeFirst
                    [TickerC exProbeStoreDown, CtxDone, TickerC exProbeAfterUp])) = 2"
proof -
  have pos: "0 < Interval exApi"
    by (simp add: exApi_def)
  note th = runService_immediate_then_cancel [of True exApi exProbeFirst "[]"
      "[exProbeStoreDown]" "[TickerC exProbeAfterUp]"]
  have "runService True exApi exProbeFirst
          (map TickerC [exProbeStoreDown] @ CtxDone # [TickerC exProbeAfterUp])
        = (runCheck True exApi exProbeFirst @ [CallNewTicker (Interval exApi)]
             @ concat (map (runCheck True exApi) [exProbeStoreDown])
             @ [CallTickerStop, CallWgDone],
           Returned)"
    using th pos by blast
  then have "runService True exApi exProbeFirst
          [TickerC exProbeStoreDown, CtxDone, TickerC exProbeAfterUp]
        = (runCheck True exApi exProbeFirst @ [CallNewTicker (Interval exApi)]
            @ runCheck True exApi exProbeStoreDown @ [CallTickerStop, CallWgDone],
          Returned)"
    by simp
  moreover have "probes (fst (runService True exApi exProbeFirst
          (map TickerC [exProbeStoreDown] @ CtxDone # [TickerC exProbeAfterUp])))
        = 1 + length [exProbeStoreDown]"
    using th pos by blast
  then have "probes (fst (runService True exApi exProbeFirst
          [TickerC exProbeStoreDown, CtxDone, TickerC exProbeAfterUp])) = 2"
    by simp
  ultimately show ?thesis
    using pos by blast
qed

section \<open>Checker factory and scheduler start\<close>

lemma started_Start:
  "started (Start factory svcs)
     = List.map_filter (\<lambda>svc. case factory svc of Inl e \<Rightarrow> None | Inr c \<Rightarrow> Some (svc, c)) svcs"
  by (induction svcs) (simp_all add: List.map_filter_simps split: sum.splits)

lemma checker_New_known:
  "Type svc \<in> {''http'', ''tcp'', ''ping'', ''docker''} \<Longrightarrow> \<exists>c. checker_New svc = Inr c"
  by (auto simp: checker_New_def)

lemma checker_New_unknown:
  "Type svc \<notin> {''http'', ''tcp'', ''ping'', ''docker''}
   \<Longrightarrow> checker_New svc = Inl (UnknownCheckerType (Type svc))"
  by (simp add: checker_New_def)

lemma started_checker_New:
  "map fst (started (Start checker_New svcs))
     = filter (\<lambda>svc. Type svc \<in> {''http'', ''tcp'', ''ping'', ''docker''}) svcs"
proof (induction svcs)
  case Nil
  show ?case by simp
next
  case (Cons svc svcs)
  show ?case
  proof (cases "Type svc \<in> {''http'', ''tcp'', ''ping'', ''docker''}")
    case True
    then obtain c where "checker_New svc = Inr c"
      using checker_New_known by blast
    with True Cons.IH show ?thesis by simp
  next
    case False
    then have "checker_New svc = Inl (UnknownCheckerType (Type svc))"
      by (rule checker_New_unknown)
    with False Cons.IH show ?thesis by simp
  qed
qed

text \<open>
  C4. The factory returns a checker of the matching variant for the types \<open>http\<close>, \<open>tcp\<close>,
  \<open>ping\<close> and \<open>docker\<close>, and the error "unknown checker type" with the type quoted for
  every other type. \<^verbatim>\<open>Scheduler.Start\<close> starts a task, in order, for exactly the services
  whose factory call succeeds, whatever the factory; a service whose call fails is logged
  and skipped. With \<^verbatim>\<open>checker.New\<close> as the factory the started services are those of the
  four known types.
\<close>

theorem factory_and_Start:
  "(Type svc = ''http'' \<longrightarrow> checker_New svc = Inr (HTTPChecker svc))
   \<and> (Type svc = ''tcp'' \<longrightarrow> checker_New svc = Inr (TCPChecker svc))
   \<and> (Type svc = ''ping'' \<longrightarrow> checker_New svc = Inr (PingChecker svc))
   \<and> (Type svc = ''docker'' \<longrightarrow> checker_New svc = Inr (DockerChecker svc))
   \<and> (Type svc \<notin> {''http'', ''tcp'', ''ping'', ''docker''}
        \<longrightarrow> checker_New svc = Inl (UnknownCheckerType (Type svc))
            \<and> checker_error_text q (UnknownCheckerType (Type svc))
                = ''unknown checker type '' @ q (Type svc))
   \<and> started (Start factory svcs)
       = List.map_filter (\<lambda>s. case factory s of Inl e \<Rightarrow> None | Inr c \<Rightarrow> Some (s, c)) svcs
   \<and> (factory svc = Inl err
        \<longrightarrow> started (Start factory (before @ svc # after))
            = started (Start factory before) @ started (Start factory after))
   \<and> map fst (started (Start checker_New svcs))
       = filter (\<lambda>s. Type s \<in> {''http'', ''tcp'', ''ping'', ''docker''}) svcs"
proof (intro conjI impI)
  show "started (Start factory svcs)
       = List.map_filter (\<lambda>s. case factory s of Inl e \<Rightarrow> None | Inr c \<Rightarrow> Some (s, c)) svcs"
    by (rule started_Start)
  show "map fst (started (Start checker_New svcs))
       = filter (\<lambda>s. Type s \<in> {''http'', ''tcp'', ''ping'', ''docker''}) svcs"
    by (rule started_checker_New)
next
  assume "factory svc = Inl err"
  then show "started (Start factory (before @ svc # after))
            = started (Start factory before) @ started (Start factory after)"
    by (simp add: started_Start List.map_filter_def)
qed (simp_all add: checker_New_def checker_error_text_def)

theorem factory_and_Start_witness:
  "checker_New exApi = Inr (HTTPChecker exApi)
   \<and> checker_New exDb = Inr (TCPChecker exDb)
   \<and> checker_New exFtp = Inl (UnknownCheckerType ''ftp'')
   \<and> checker_error_text quotePlain (UnknownCheckerType ''ftp'')
       = ''unknown checker type '' @ [CHR 0x22] @ ''ftp'' @ [CHR 0x22]
   \<and> started (Start checker_New [exApi, exFtp, exDb])
       = [(exApi, HTTPChecker exApi), (exDb, TCPChecker exDb)]"
proof -
  have ty: "Type exApi = ''http''" "Type exDb = ''tcp''" "Type exFtp = ''ftp''"
    by (simp_all add: exApi_def exDb_def exFtp_def)
  have a: "checker_New exApi = Inr (HTTPChecker exApi)"
    using factory_and_Start [of exApi quotePlain checker_New "[]" "UnknownCheckerType ''ftp''"
        "[]" "[]"] ty by blast
  have b: "checker_New exDb = Inr (TCPChecker exDb)"
    using factory_and_Start [of exDb quotePlain checker_New "[]" "UnknownCheckerType ''ftp''"
        "[]" "[]"] ty by blast
  have unknown: "Type exFtp \<notin> {''http'', ''tcp'', ''ping'', ''docker''}"
    by (simp add: ty)
  note f = factory_and_Start [of exFtp quotePlain checker_New "[exApi, exFtp, exDb]"
      "UnknownCheckerType ''ftp''" "[exApi]" "[exDb]"]
  have c: "checker_New exFtp = Inl (UnknownCheckerType ''ftp'')"
    and d: "checker_error_text quotePlain (UnknownCheckerType ''ftp'')
       = ''unknown checker type '' @ quotePlain ''ftp''"
    using f unknown unfolding ty by blast+
  have "started (Start checker_New ([exApi] @ exFtp # [exDb]))
      = started (Start checker_New [exApi]) @ started (Start checker_New [exDb])"
    using f c by blast
  then have e: "started (Start checker_New [exApi, exFtp, exDb])
       = [(exApi, HTTPChecker exApi), (exDb, TCPChecker exDb)]"
    by (simp add: a b)
  from a b c d e show ?thesis
    by (simp add: quotePlain_def)
qed

section \<open>Ping checker: the pattern and its matcher\<close>






















section \<open>Ping checker\<close>




section \<open>HTTP checker\<close>

text \<open>
  C9. An HTTP check is Up exactly when the request was built, the transport returned a
  response, and the status code of the response equals the expected status, where an
  expected status of 0 stands for 200. In every other case the result is Down and its
  error text is not empty.
\<close>

theorem httpChecker_Check_up_iff:
  "(Status (httpChecker_Check q svc w) = StatusUp
      \<longleftrightarrow> httpOut w = DoResponse (if ExpectedStatus svc = 0 then 200 else ExpectedStatus svc))
   \<and> (Status (httpChecker_Check q svc w) = StatusUp \<longrightarrow> Error (httpChecker_Check q svc w) = [])
   \<and> (Status (httpChecker_Check q svc w) \<noteq> StatusUp
        \<longrightarrow> Status (httpChecker_Check q svc w) = StatusDown
            \<and> Error (httpChecker_Check q svc w) \<noteq> [])"
proof (cases "httpOut w")
  case (NewRequestFailed err)
  then show ?thesis
    by (simp add: httpChecker_Check_def Let_def StatusUp_def StatusDown_def)
next
  case (DoFailed err)
  then show ?thesis
    by (simp add: httpChecker_Check_def url_Error_text_def Let_def StatusUp_def StatusDown_def)
next
  case (DoResponse code)
  then show ?thesis
    by (simp add: httpChecker_Check_def Let_def StatusUp_def StatusDown_def)
qed

theorem httpChecker_Check_up_iff_witness:
  "Status (httpChecker_Check quotePlain exWeb exWorld) = ''up''
   \<and> Error (httpChecker_Check quotePlain exWeb exWorld) = []
   \<and> Status (httpChecker_Check quotePlain exWeb exUnavailable) = ''down''
   \<and> Error (httpChecker_Check quotePlain exWeb exUnavailable) = ''expected status 200, got 503''
   \<and> Status (httpChecker_Check quotePlain exWeb exRefused) = ''down''
   \<and> Error (httpChecker_Check quotePlain exWeb exRefused) \<noteq> []"
proof -
  have es: "ExpectedStatus exWeb = 0"
    by (simp add: exWeb_def)
  have o1: "httpOut exWorld = DoResponse 200" and o2: "httpOut exUnavailable = DoResponse 503"
    and o3: "httpOut exRefused = DoFailed \<lparr>Op = ''Get'', URL = ''http://example.com/health'',
                                          Err = ''connection refused''\<rparr>"
    by (simp_all add: exWorld_def exUnavailable_def exRefused_def)
  have "Status (httpChecker_Check quotePlain exWeb exWorld) = StatusUp
      \<and> Error (httpChecker_Check quotePlain exWeb exWorld) = []"
    using httpChecker_Check_up_iff [of quotePlain exWeb exWorld] es o1 by simp
  moreover have "Status (httpChecker_Check quotePlain exWeb exUnavailable) = StatusDown
      \<and> Error (httpChecker_Check quotePlain exWeb exUnavailable) \<noteq> []"
    using httpChecker_Check_up_iff [of quotePlain exWeb exUnavailable] es o2 by simp
  moreover have "Status (httpChecker_Check quotePlain exWeb exRefused) = StatusDown
      \<and> Error (httpChecker_Check quotePlain exWeb exRefused) \<noteq> []"
    using httpChecker_Check_up_iff [of quotePlain exWeb exRefused] es o3 by simp
  moreover have "Error (httpChecker_Check quotePlain exWeb exUnavailable)
      = ''expected status 200, got 503''"
    by (simp add: httpChecker_Check_def o2 es Itoa_def natStr.simps digitChar_def)
  ultimately show ?thesis
    by (simp add: StatusUp_def StatusDown_def)
qed

section \<open>All four checkers\<close>

lemma InspectContainer_shape:
  "(\<exists>err. err \<noteq> [] \<and> InspectContainer q name out = (None, Some err))
   \<or> (\<exists>st. InspectContainer q name out = (Some st, None))"
  by (cases out) (auto simp: InspectContainer_def split: decode_outcome.splits)

lemma dockerChecker_Check_unix:
  "\<exists>r. dockerChecker_Check q svc w (InspectContainer q name out) = Inr r
       \<and> (Error r = [] \<longleftrightarrow> Status r = StatusUp)
       \<and> (Status r = StatusUp \<or> Status r = StatusDown)"
  using InspectContainer_shape [of q name out]
  by (auto simp: dockerChecker_Check_def Let_def StatusUp_def StatusDown_def)

lemma pingChecker_Check_error_iff:
  "(Error (pingChecker_Check rtt svc w) = [] \<longleftrightarrow> Status (pingChecker_Check rtt svc w) = StatusUp)
   \<and> (Status (pingChecker_Check rtt svc w) = StatusUp
        \<or> Status (pingChecker_Check rtt svc w) = StatusDown)"
  by (simp add: pingChecker_Check_def Let_def StatusUp_def StatusDown_def split: option.splits)

lemma tcpChecker_Check_error_iff:
  "(Error (tcpChecker_Check svc w) = [] \<longleftrightarrow> Status (tcpChecker_Check svc w) = StatusUp)
   \<and> (Status (tcpChecker_Check svc w) = StatusUp \<or> Status (tcpChecker_Check svc w) = StatusDown)"
  by (simp add: tcpChecker_Check_def Let_def StatusUp_def StatusDown_def split: option.splits)

lemma httpChecker_Check_error_iff:
  "(Error (httpChecker_Check q svc w) = [] \<longleftrightarrow> Status (httpChecker_Check q svc w) = StatusUp)
   \<and> (Status (httpChecker_Check q svc w) = StatusUp
        \<or> Status (httpChecker_Check q svc w) = StatusDown)"
  by (cases "httpOut w")
    (simp_all add: httpChecker_Check_def url_Error_text_def Let_def StatusUp_def StatusDown_def)

lemma Check_total:
  "\<exists>r. Check q rtt c w = Inr r
       \<and> (Error r = [] \<longleftrightarrow> Status r = StatusUp)
       \<and> (Status r = StatusUp \<or> Status r = StatusDown)"
proof (cases c)
  case (HTTPChecker svc)
  then show ?thesis using httpChecker_Check_error_iff [of q svc w] by simp
next
  case (TCPChecker svc)
  then show ?thesis using tcpChecker_Check_error_iff [of svc w] by simp
next
  case (PingChecker svc)
  then show ?thesis using pingChecker_Check_error_iff [of rtt svc w] by simp
next
  case (DockerChecker svc)
  then show ?thesis using dockerChecker_Check_unix [of q svc w "Target svc" "dockerOut w"] by simp
qed

text \<open>
  C7. For each of the four checkers the factory builds, and whatever the network, the
  child process or the Docker socket returns, \<^verbatim>\<open>Check\<close> returns a result and does not
  panic; the status of the result is Up or Down; and its error text is empty exactly when
  the status is Up. Each way a probe can fail gives Down: a request that cannot be built,
  a transport error or an unexpected status code (HTTP); a dial error (TCP); a command
  error or output with no round-trip time (ping); an error of the inspect call or a
  container that is not running (container).
\<close>

theorem Check_error_empty_iff_up:
  "(\<exists>r. Check q rtt c w = Inr r
        \<and> (Error r = [] \<longleftrightarrow> Status r = StatusUp)
        \<and> (Status r = StatusUp \<or> Status r = StatusDown))
   \<and> (c = HTTPChecker svc
        \<and> httpOut w \<noteq> DoResponse (if ExpectedStatus svc = 0 then 200 else ExpectedStatus svc)
       \<or> c = TCPChecker svc \<and> dialOut w \<noteq> None
       \<or> c = PingChecker svc \<and> (pingErr w \<noteq> None \<or> FindSubmatch (pingStdout w) = None)
       \<or> c = DockerChecker svc \<and> dockerOut w \<noteq> InspectResponse 200 (Decoded True)
       \<longrightarrow> (\<exists>r. Check q rtt c w = Inr r \<and> Status r = StatusDown \<and> Error r \<noteq> []))"
proof (intro conjI impI)
  show "\<exists>r. Check q rtt c w = Inr r
        \<and> (Error r = [] \<longleftrightarrow> Status r = StatusUp)
        \<and> (Status r = StatusUp \<or> Status r = StatusDown)"
    by (rule Check_total)
next
  assume fail: "c = HTTPChecker svc
        \<and> httpOut w \<noteq> DoResponse (if ExpectedStatus svc = 0 then 200 else ExpectedStatus svc)
       \<or> c = TCPChecker svc \<and> dialOut w \<noteq> None
       \<or> c = PingChecker svc \<and> (pingErr w \<noteq> None \<or> FindSubmatch (pingStdout w) = None)
       \<or> c = DockerChecker svc \<and> dockerOut w \<noteq> InspectResponse 200 (Decoded True)"
  obtain r where r: "Check q rtt c w = Inr r" "Error r = [] \<longleftrightarrow> Status r = StatusUp"
      "Status r = StatusUp \<or> Status r = StatusDown"
    using Check_total [of q rtt c w] by blast
  have "Status r \<noteq> StatusUp"
  proof
    assume up: "Status r = StatusUp"
    from fail show False
    proof (elim disjE conjE)
      assume "c = HTTPChecker svc"
        and "httpOut w \<noteq> DoResponse (if ExpectedStatus svc = 0 then 200 else ExpectedStatus svc)"
      with r(1) up show False
        by (cases "httpOut w")
          (auto simp: httpChecker_Check_def Let_def StatusUp_def StatusDown_def
            split: if_splits)
    next
      assume "c = TCPChecker svc" and "dialOut w \<noteq> None"
      with r(1) up show False
        by (auto simp: tcpChecker_Check_def Let_def StatusUp_def StatusDown_def)
    next
      assume "c = PingChecker svc" and "pingErr w \<noteq> None"
      with r(1) up show False
        by (auto simp: pingChecker_Check_def Let_def StatusUp_def StatusDown_def)
    next
      assume "c = PingChecker svc" and "FindSubmatch (pingStdout w) = None"
      with r(1) up show False
        by (auto simp: pingChecker_Check_def Let_def StatusUp_def StatusDown_def
            split: option.splits)
    next
      assume "c = DockerChecker svc" and "dockerOut w \<noteq> InspectResponse 200 (Decoded True)"
      with r(1) up show False
        by (cases "dockerOut w")
          (auto simp: dockerChecker_Check_def InspectContainer_def Let_def StatusUp_def
            StatusDown_def split: decode_outcome.splits if_splits)
    qed
  qed
  with r show "\<exists>r. Check q rtt c w = Inr r \<and> Status r = StatusDown \<and> Error r \<noteq> []"
    by auto
qed

theorem Check_error_empty_iff_up_witness:
  "dialOut exRefused \<noteq> None
   \<and> (\<exists>r. Check quotePlain exRtt (TCPChecker exDb) exRefused = Inr r
          \<and> Status r = StatusDown \<and> Error r \<noteq> [])
   \<and> dockerOut exStopped \<noteq> InspectResponse 200 (Decoded True)
   \<and> (\<exists>r. Check quotePlain exRtt (DockerChecker exContainer) exStopped = Inr r
          \<and> Status r = StatusDown \<and> Error r \<noteq> [])
   \<and> (\<exists>r. Check quotePlain exRtt (DockerChecker exContainer) exWorld = Inr r
          \<and> (Error r = [] \<longleftrightarrow> Status r = StatusUp))
   \<and> Check quotePlain exRtt (DockerChecker exContainer) exWorld
       = Inr \<lparr>ServiceName = ''cache'', Status = ''up'', ResponseTime = 2000000, Error = [],
              CheckedAt = 100\<rparr>"
proof -
  have d: "dialOut exRefused \<noteq> None"
    by (simp add: exRefused_def)
  have s: "dockerOut exStopped \<noteq> InspectResponse 200 (Decoded True)"
    by (simp add: exStopped_def)
  have "\<exists>r. Check quotePlain exRtt (TCPChecker exDb) exRefused = Inr r
          \<and> Status r = StatusDown \<and> Error r \<noteq> []"
    using Check_error_empty_iff_up [of quotePlain exRtt "TCPChecker exDb" exRefused exDb] d
    by blast
  moreover have "\<exists>r. Check quotePlain exRtt (DockerChecker exContainer) exStopped = Inr r
          \<and> Status r = StatusDown \<and> Error r \<noteq> []"
    using Check_error_empty_iff_up [of quotePlain exRtt "DockerChecker exContainer" exStopped
        exContainer] s
    by blast
  moreover have "\<exists>r. Check quotePlain exRtt (DockerChecker exContainer) exWorld = Inr r
          \<and> (Error r = [] \<longleftrightarrow> Status r = StatusUp)"
    using Check_error_empty_iff_up [of quotePlain exRtt "DockerChecker exContainer" exWorld
        exContainer]
    by blast
  moreover have "Check quotePlain exRtt (DockerChecker exContainer) exWorld
       = Inr \<lparr>ServiceName = ''cache'', Status = ''up'', ResponseTime = 2000000, Error = [],
              CheckedAt = 100\<rparr>"
    by (simp add: exContainer_def exWorld_def dockerChecker_Check_def InspectContainer_def
        StatusUp_def)
  ultimately show ?thesis
    using d s by blast
qed

section \<open>Configuration: what a loaded service satisfies\<close>

lemmas ParseDuration_eval =
  ParseDuration_def parseTerms.simps parseTerm_def unitMap_def numChar_def isDigit_def
  two63_def two64_def Let_def

lemma ParseDuration_zero: "ParseDuration fr ''0'' = Inr 0"
  by (simp add: ParseDuration_def)

lemma ParseDuration_minus_5s: "ParseDuration fr ''-5s'' = Inr (- 5000000000)"
  by (simp add: ParseDuration_eval)

lemma ParseDuration_15s: "ParseDuration fr ''15s'' = Inr 15000000000"
  by (simp add: ParseDuration_eval)

lemma ParseDuration_3s: "ParseDuration fr ''3s'' = Inr 3000000000"
  by (simp add: ParseDuration_eval)

text \<open>
  C6, as the code has it. The claim reads: every service of a configuration that \<^verbatim>\<open>Load\<close>
  returns has a positive interval and a positive timeout. \<^verbatim>\<open>Load\<close> accepts whatever
  \<^verbatim>\<open>time.ParseDuration\<close> accepts: an interval of \<open>0\<close> and a timeout of \<open>-5s\<close> are loaded as
  they are.
\<close>

theorem Load_non_positive_durations:
  "Load fracExact exRawZero = Inr exCfgZero
   \<and> Interval (hd (Services exCfgZero)) = 0
   \<and> Timeout (hd (Services exCfgZero)) = - 5000000000
   \<and> \<not> 0 < Interval (hd (Services exCfgZero))
   \<and> \<not> 0 < Timeout (hd (Services exCfgZero))"
  by (simp add: Load_def exRawZero_def exRawApi_def exCfgZero_def validTypes_def
      ParseDuration_zero ParseDuration_minus_5s)

lemma loadServices_ok:
  "loadServices fr i names rss = Inr svcs \<Longrightarrow>
     list_all2
       (\<lambda>rs svc.
          Name svc = raw_Name rs \<and> Name svc \<noteq> []
          \<and> Type svc \<in> {''http'', ''tcp'', ''ping'', ''docker''}
          \<and> Target svc \<noteq> []
          \<and> (if raw_Interval rs = [] then Interval svc = 30000000000
              else ParseDuration fr (raw_Interval rs) = Inr (Interval svc))
          \<and> (if raw_Timeout rs = [] then Timeout svc = 5000000000
              else ParseDuration fr (raw_Timeout rs) = Inr (Timeout svc)))
       rss svcs
     \<and> distinct (map raw_Name rss)
     \<and> (\<forall>rs \<in> set rss. \<not> names (raw_Name rs))"
proof (induction rss arbitrary: i names svcs)
  case Nil
  then show ?case by simp
next
  case (Cons rs rest)
  from Cons.prems obtain interval timeout svcs' where
    nm: "raw_Name rs \<noteq> []" "\<not> names (raw_Name rs)"
    and tg: "raw_Target rs \<noteq> []"
    and ty: "validTypes (raw_Type rs)"
    and iv: "(if raw_Interval rs = [] then Inr (30 * Second)
              else ParseDuration fr (raw_Interval rs)) = Inr interval"
    and tm: "(if raw_Timeout rs = [] then Inr (5 * Second)
              else ParseDuration fr (raw_Timeout rs)) = Inr timeout"
    and rec: "loadServices fr (i + 1) (names(raw_Name rs := True)) rest = Inr svcs'"
    and res: "svcs = \<lparr>Name = raw_Name rs, Type = raw_Type rs, Target = raw_Target rs,
                       Interval = interval, Timeout = timeout,
                       ExpectedStatus =
                         (if raw_Type rs = ''http'' \<and> raw_ExpectedStatus rs = 0 then 200
                          else raw_ExpectedStatus rs),
                       Headers = raw_Headers rs\<rparr> # svcs'"
    by (auto simp: Let_def split: if_splits sum.splits)
  note ih = Cons.IH [OF rec]
  have later: "\<forall>r \<in> set rest. raw_Name r \<noteq> raw_Name rs \<and> \<not> names (raw_Name r)"
    using ih by (auto split: if_splits)
  have "Interval (hd svcs) = interval" "Timeout (hd svcs) = timeout"
    by (simp_all add: res)
  with nm tg ty iv tm res ih later show ?case
    by (auto simp: validTypes_def Second_def split: if_splits)
qed

text \<open>
  C6, amended. A configuration that \<^verbatim>\<open>Load\<close> returns has one service per configured
  service, in order. The names are unique and not empty, each type is one of \<open>http\<close>,
  \<open>tcp\<close>, \<open>ping\<close>, \<open>docker\<close>, and each target is not empty. The interval is 30s when it is
  omitted and the timeout 5s when it is omitted; otherwise each is the duration
  \<^verbatim>\<open>time.ParseDuration\<close> reads from the configured text, which may be zero or negative.
\<close>

theorem Load_services_valid:
  assumes "Load fr raw = Inr cfg"
  shows "length (Services cfg) = length (raw_Services raw)
    \<and> Services cfg \<noteq> []
    \<and> distinct (map Name (Services cfg))
    \<and> list_all2
        (\<lambda>rs svc.
           Name svc = raw_Name rs \<and> Name svc \<noteq> []
           \<and> Type svc \<in> {''http'', ''tcp'', ''ping'', ''docker''}
           \<and> Target svc \<noteq> []
           \<and> (if raw_Interval rs = [] then Interval svc = 30000000000
               else ParseDuration fr (raw_Interval rs) = Inr (Interval svc))
           \<and> (if raw_Timeout rs = [] then Timeout svc = 5000000000
               else ParseDuration fr (raw_Timeout rs) = Inr (Timeout svc)))
        (raw_Services raw) (Services cfg)"
proof -
  from assms have ne: "raw_Services raw \<noteq> []"
    and ld: "loadServices fr 0 (\<lambda>n. False) (raw_Services raw) = Inr (Services cfg)"
    by (auto simp: Load_def Let_def split: if_splits sum.splits)
  note ok = loadServices_ok [OF ld]
  then have rel: "list_all2 (\<lambda>rs svc. Name svc = raw_Name rs) (raw_Services raw) (Services cfg)"
    by (auto elim: list_all2_mono)
  then have names: "map Name (Services cfg) = map raw_Name (raw_Services raw)"
    by (induction rule: list_all2_induct) simp_all
  have len: "length (Services cfg) = length (raw_Services raw)"
    using rel by (simp add: list_all2_lengthD)
  with ne have "Services cfg \<noteq> []"
    by auto
  with ok names len show ?thesis
    by simp
qed

theorem Load_services_valid_witness:
  "Load fracExact exRawConfig
     = Inr \<lparr>Services =
              [\<lparr>Name = ''api'', Type = ''http'', Target = ''https://example.com/health'',
                Interval = 30000000000, Timeout = 5000000000, ExpectedStatus = 200,
                Headers = Map.empty\<rparr>,
               \<lparr>Name = ''db'', Type = ''tcp'', Target = ''db.example.com:5432'',
                Interval = 15000000000, Timeout = 3000000000, ExpectedStatus = 0,
                Headers = Map.empty\<rparr>],
            Alerts = exWebhook, Address = '':8080'', Path = ''servprobe.db''\<rparr>
   \<and> distinct (map Name (Services
        \<lparr>Services =
              [\<lparr>Name = ''api'', Type = ''http'', Target = ''https://example.com/health'',
                Interval = 30000000000, Timeout = 5000000000, ExpectedStatus = 200,
                Headers = Map.empty\<rparr>,
               \<lparr>Name = ''db'', Type = ''tcp'', Target = ''db.example.com:5432'',
                Interval = 15000000000, Timeout = 3000000000, ExpectedStatus = 0,
                Headers = Map.empty\<rparr>],
            Alerts = exWebhook, Address = '':8080'', Path = ''servprobe.db''\<rparr>))"
proof -
  have ld: "Load fracExact exRawConfig
     = Inr \<lparr>Services =
              [\<lparr>Name = ''api'', Type = ''http'', Target = ''https://example.com/health'',
                Interval = 30000000000, Timeout = 5000000000, ExpectedStatus = 200,
                Headers = Map.empty\<rparr>,
               \<lparr>Name = ''db'', Type = ''tcp'', Target = ''db.example.com:5432'',
                Interval = 15000000000, Timeout = 3000000000, ExpectedStatus = 0,
                Headers = Map.empty\<rparr>],
            Alerts = exWebhook, Address = '':8080'', Path = ''servprobe.db''\<rparr>"
    by (simp add: Load_def exRawConfig_def exRawApi_def exRawDb_def validTypes_def Second_def
        ParseDuration_15s ParseDuration_3s)
  from Load_services_valid [OF ld] ld show ?thesis
    by blast
qed

section \<open>The one-off check command\<close>






end
